theory Spec2Isabelle
  imports Complex_Main "HOL-Library.AList"
begin

section \<open>Python values shared by both modules\<close>

text \<open>
  The value a Python call hands back to its caller. A function body that ends without
  a \<^verbatim>\<open>return\<close> statement returns \<^verbatim>\<open>None\<close>.
\<close>

datatype py_value = PyNone | PyInt int | PyStr string | PyDict "(string \<times> py_value) list"

datatype py_error =
  RuntimeError | NameError | AcceptError | DatabaseError | SmtpError | CancelledError

text \<open>
  A Python \<^verbatim>\<open>float\<close>: a finite value, an infinity or NaN. Comparisons of finite
  floats compare their exact values; every ordered comparison with NaN is false and NaN
  is unequal to everything, itself included.
\<close>

datatype pyfloat = Finite real | PosInf | NegInf | NaN

fun float_lt :: "pyfloat \<Rightarrow> pyfloat \<Rightarrow> bool" where
  "float_lt NaN b = False"
| "float_lt a NaN = False"
| "float_lt (Finite a) (Finite b) = (a < b)"
| "float_lt (Finite a) PosInf = True"
| "float_lt (Finite a) NegInf = False"
| "float_lt PosInf b = False"
| "float_lt NegInf NegInf = False"
| "float_lt NegInf b = True"

fun float_eq :: "pyfloat \<Rightarrow> pyfloat \<Rightarrow> bool" where
  "float_eq NaN b = False"
| "float_eq a NaN = False"
| "float_eq a b = (a = b)"

definition float_gt :: "pyfloat \<Rightarrow> pyfloat \<Rightarrow> bool" where
  "float_gt a b = float_lt b a"

definition float_le :: "pyfloat \<Rightarrow> pyfloat \<Rightarrow> bool" where
  "float_le a b = (float_lt a b \<or> float_eq a b)"

definition float_ge :: "pyfloat \<Rightarrow> pyfloat \<Rightarrow> bool" where
  "float_ge a b = (float_lt b a \<or> float_eq a b)"

definition float_ne :: "pyfloat \<Rightarrow> pyfloat \<Rightarrow> bool" where
  "float_ne a b = (\<not> float_eq a b)"

section \<open>services/notifications.py: AlertCondition\<close>

text \<open>
  The class \<^verbatim>\<open>AlertCondition\<close>. Its attribute \<^verbatim>\<open>value\<close> is the field
  \<open>cond_value\<close> (\<open>value\<close> is a command name of the theory language).
\<close>

record AlertCondition =
  metric :: string
  operator :: string
  cond_value :: pyfloat
  duration_minutes :: int

text \<open>The dictionary \<^verbatim>\<open>operators\<close> built in \<^verbatim>\<open>evaluate\<close>, in its written order.\<close>

definition operators :: "(string \<times> (pyfloat \<Rightarrow> pyfloat \<Rightarrow> bool)) list" where
  "operators =
     [(''>'', \<lambda>a b. float_gt a b),
      (''<'', \<lambda>a b. float_lt a b),
      (''>='', \<lambda>a b. float_ge a b),
      (''<='', \<lambda>a b. float_le a b),
      (''=='', \<lambda>a b. float_eq a b),
      (''!='', \<lambda>a b. float_ne a b)]"

text \<open>
  \<^verbatim>\<open>operators.get(self.operator)\<close> is \<^verbatim>\<open>None\<close> for a key outside the table, and
  \<^verbatim>\<open>None\<close> is the only falsy result the lookup can give (a lambda is truthy).
\<close>

definition evaluate :: "AlertCondition \<Rightarrow> pyfloat \<Rightarrow> bool" where
  "evaluate self current_value =
     (case map_of operators (operator self) of
        None \<Rightarrow> False
      | Some op_func \<Rightarrow> op_func current_value (cond_value self))"

section \<open>api/websocket.py: ConnectionManager\<close>

text \<open>
  A \<^verbatim>\<open>WebSocket\<close> object is known by its identity: Starlette compares connections
  with \<^verbatim>\<open>object.__eq__\<close>, so \<^verbatim>\<open>list.remove\<close> removes the first entry that is the
  same object.
\<close>

type_synonym websocket = nat

datatype WebSocketState = CONNECTING | CONNECTED | DISCONNECTED | RESPONSE

text \<open>
  What the transport does during one call: the state each connection reports, whether
  \<^verbatim>\<open>accept\<close> or \<^verbatim>\<open>send_text\<close> raises on it, and what \<^verbatim>\<open>json.dumps\<close> makes of a
  message (\<open>None\<close> when it raises \<^verbatim>\<open>TypeError\<close>).
\<close>

record 'm net =
  client_state :: "websocket \<Rightarrow> WebSocketState"
  accept_raises :: "websocket \<Rightarrow> bool"
  send_raises :: "websocket \<Rightarrow> bool"
  json_dumps :: "'m \<Rightarrow> string option"

text \<open>
  What the loop of \<^verbatim>\<open>send_personal_message\<close> did with one connection: the text was
  handed to \<^verbatim>\<open>send_text\<close> and accepted, the \<^verbatim>\<open>try\<close> block raised, or the state was
  not \<^verbatim>\<open>CONNECTED\<close> and no send was made.
\<close>

datatype event = Sent websocket string | SendError websocket | NotConnected websocket

text \<open>
  The manager: the dictionary \<^verbatim>\<open>active_connections\<close> in insertion order, and the
  record of what has been done on the wire.
\<close>

record ConnectionManager =
  active_connections :: "(string \<times> websocket list) list"
  events :: "event list"

definition init_manager :: ConnectionManager where
  "init_manager = \<lparr>active_connections = [], events = []\<rparr>"

definition connect :: "'m net \<Rightarrow> websocket \<Rightarrow> string \<Rightarrow> ConnectionManager
    \<Rightarrow> py_error + ConnectionManager" where
  "connect nt ws user_id self =
     (if accept_raises nt ws then Inl AcceptError
      else
        let conns = (case map_of (active_connections self) user_id of
                       None \<Rightarrow> [] | Some cs \<Rightarrow> cs)
        in Inr (self\<lparr>active_connections :=
                  AList.update user_id (conns @ [ws]) (active_connections self)\<rparr>))"

text \<open>
  \<^verbatim>\<open>list.remove\<close> raises \<^verbatim>\<open>ValueError\<close> when the connection is not in the list; the
  handler swallows it and nothing changes.
\<close>

definition disconnect :: "websocket \<Rightarrow> string \<Rightarrow> ConnectionManager \<Rightarrow> ConnectionManager" where
  "disconnect ws user_id self =
     (case map_of (active_connections self) user_id of
        None \<Rightarrow> self
      | Some conns \<Rightarrow>
          if ws \<notin> set conns then self
          else if remove1 ws conns = []
          then self\<lparr>active_connections := AList.delete user_id (active_connections self)\<rparr>
          else self\<lparr>active_connections :=
                 AList.update user_id (remove1 ws conns) (active_connections self)\<rparr>)"

definition send_one :: "'m net \<Rightarrow> 'm \<Rightarrow> websocket \<Rightarrow> event" where
  "send_one nt message connection =
     (if client_state nt connection = CONNECTED
      then (case json_dumps nt message of
              None \<Rightarrow> SendError connection
            | Some txt \<Rightarrow>
                if send_raises nt connection then SendError connection
                else Sent connection txt)
      else NotConnected connection)"

fun is_sent :: "event \<Rightarrow> bool" where
  "is_sent (Sent c txt) = True"
| "is_sent e = False"

text \<open>
  The first loop: one pass over the user's list, collecting \<^verbatim>\<open>disconnected\<close> and the
  events.
\<close>

fun send_loop :: "'m net \<Rightarrow> 'm \<Rightarrow> websocket list \<Rightarrow> websocket list \<Rightarrow> event list
    \<Rightarrow> websocket list \<times> event list" where
  "send_loop nt message [] disconnected evs = (disconnected, evs)"
| "send_loop nt message (c # cs) disconnected evs =
     (let e = send_one nt message c
      in send_loop nt message cs
           (if is_sent e then disconnected else disconnected @ [c]) (evs @ [e]))"

text \<open>The second loop: \<^verbatim>\<open>self.disconnect(conn, user_id)\<close> for each collected one.\<close>

fun prune_loop :: "websocket list \<Rightarrow> string \<Rightarrow> ConnectionManager \<Rightarrow> ConnectionManager" where
  "prune_loop [] user_id self = self"
| "prune_loop (c # cs) user_id self = prune_loop cs user_id (disconnect c user_id self)"

definition send_personal_message :: "'m net \<Rightarrow> 'm \<Rightarrow> string \<Rightarrow> ConnectionManager
    \<Rightarrow> ConnectionManager \<times> py_value" where
  "send_personal_message nt message user_id self =
     (case map_of (active_connections self) user_id of
        None \<Rightarrow> (self, PyNone)
      | Some conns \<Rightarrow>
          (case send_loop nt message conns [] [] of
             (disconnected, evs) \<Rightarrow>
               (prune_loop disconnected user_id (self\<lparr>events := events self @ evs\<rparr>),
                PyNone)))"

text \<open>
  \<^verbatim>\<open>broadcast\<close> iterates \<^verbatim>\<open>self.active_connections.items()\<close>. The dictionary
  iterator remembers the size the dictionary had when the loop started and raises
  \<^verbatim>\<open>RuntimeError\<close> at the next step once the size differs. The body only ever touches
  the entry of the user it is at, so the entries still to come are those of the start.
  What was sent and pruned before the raise stays done.
\<close>

fun broadcast_loop :: "'m net \<Rightarrow> 'm \<Rightarrow> nat \<Rightarrow> string list \<Rightarrow> ConnectionManager
    \<Rightarrow> py_error option \<times> ConnectionManager" where
  "broadcast_loop nt message used [] self =
     (if length (active_connections self) \<noteq> used then (Some RuntimeError, self)
      else (None, self))"
| "broadcast_loop nt message used (user_id # rest) self =
     (if length (active_connections self) \<noteq> used then (Some RuntimeError, self)
      else broadcast_loop nt message used rest
             (fst (send_personal_message nt message user_id self)))"

definition broadcast :: "'m net \<Rightarrow> 'm \<Rightarrow> ConnectionManager
    \<Rightarrow> py_error option \<times> ConnectionManager" where
  "broadcast nt message self =
     broadcast_loop nt message (length (active_connections self))
       (map fst (active_connections self)) self"

subsection \<open>Reading the registry\<close>

text \<open>
  \<open>connections_of\<close> is the list a user id maps to (empty when the id is no key);
  \<open>deliverable\<close> says that the loop hands the message to a connection: its state is
  \<^verbatim>\<open>CONNECTED\<close> and neither \<^verbatim>\<open>json.dumps\<close> nor \<^verbatim>\<open>send_text\<close> raises.
\<close>

definition connections_of :: "ConnectionManager \<Rightarrow> string \<Rightarrow> websocket list" where
  "connections_of self user_id =
     (case map_of (active_connections self) user_id of None \<Rightarrow> [] | Some cs \<Rightarrow> cs)"

definition deliverable :: "'m net \<Rightarrow> 'm \<Rightarrow> websocket \<Rightarrow> bool" where
  "deliverable nt message c =
     (client_state nt c = CONNECTED \<and> json_dumps nt message \<noteq> None \<and> \<not> send_raises nt c)"

subsection \<open>A send interleaved with other tasks\<close>

text \<open>
  \<^verbatim>\<open>send_personal_message\<close> awaits \<^verbatim>\<open>send_text\<close> inside its first loop, and that loop
  iterates the very list the registry holds for the user. While the call is suspended
  in the await, the endpoint tasks of other connections may run \<^verbatim>\<open>disconnect\<close>, which
  removes from that same list, and the task of the call itself may be cancelled.
  \<open>others i\<close> are the disconnects (connection and user id) that other tasks make during
  the await of the loop's step \<open>i\<close>, and \<open>cancelled i\<close> says that the task is cancelled
  in that await. A step whose connection is not \<^verbatim>\<open>CONNECTED\<close>, or whose \<^verbatim>\<open>json.dumps\<close>
  raises, has no await. \<^verbatim>\<open>CancelledError\<close> is no \<^verbatim>\<open>Exception\<close>: the handler in the
  loop does not catch it, it leaves the call at once, and neither the rest of the loop
  nor the pruning runs.

  A list iterator keeps an index: each step takes the element at the index if the list
  is still that long, and the loop ends otherwise. The other tasks only remove here, so
  the index stays below the length the list had at the call, and the list of a deleted
  key is empty.
\<close>

fun run_disconnects :: "(websocket \<times> string) list \<Rightarrow> ConnectionManager \<Rightarrow> ConnectionManager" where
  "run_disconnects [] self = self"
| "run_disconnects ((ws, user_id) # rest) self =
     run_disconnects rest (disconnect ws user_id self)"

fun send_loop_live :: "'m net \<Rightarrow> 'm \<Rightarrow> string \<Rightarrow> (nat \<Rightarrow> (websocket \<times> string) list)
    \<Rightarrow> (nat \<Rightarrow> bool) \<Rightarrow> nat list \<Rightarrow> websocket list \<Rightarrow> ConnectionManager
    \<Rightarrow> py_error option \<times> websocket list \<times> ConnectionManager" where
  "send_loop_live nt message user_id others cancelled [] disconnected self =
     (None, disconnected, self)"
| "send_loop_live nt message user_id others cancelled (i # rest) disconnected self =
     (let conns = connections_of self user_id
      in if i < length conns
         then
           let c = conns ! i;
               awaited = (client_state nt c = CONNECTED \<and> json_dumps nt message \<noteq> None);
               self1 = (if awaited then run_disconnects (others i) self else self)
           in if awaited \<and> cancelled i then (Some CancelledError, disconnected, self1)
              else
                let e = send_one nt message c
                in send_loop_live nt message user_id others cancelled rest
                     (if is_sent e then disconnected else disconnected @ [c])
                     (self1\<lparr>events := events self1 @ [e]\<rparr>)
         else (None, disconnected, self))"

definition send_personal_message_live :: "'m net \<Rightarrow> 'm \<Rightarrow> string
    \<Rightarrow> (nat \<Rightarrow> (websocket \<times> string) list) \<Rightarrow> (nat \<Rightarrow> bool) \<Rightarrow> ConnectionManager
    \<Rightarrow> ConnectionManager \<times> (py_error + py_value)" where
  "send_personal_message_live nt message user_id others cancelled self =
     (case map_of (active_connections self) user_id of
        None \<Rightarrow> (self, Inr PyNone)
      | Some conns \<Rightarrow>
          (case send_loop_live nt message user_id others cancelled [0..<length conns] [] self of
             (Some e, disconnected, self') \<Rightarrow> (self', Inl e)
           | (None, disconnected, self') \<Rightarrow>
               (prune_loop disconnected user_id self', Inr PyNone)))"

subsection \<open>Sequences of calls on one manager\<close>

text \<open>
  A call whose \<^verbatim>\<open>accept\<close> raises leaves the manager as it was. \<open>lists_nonempty\<close> is
  the property that every key of \<^verbatim>\<open>active_connections\<close> maps to a non-empty list.
\<close>

datatype 'm call =
    Connect "'m net" websocket string
  | Disconnect websocket string
  | SendPersonalMessage "'m net" 'm string

fun apply_call :: "'m call \<Rightarrow> ConnectionManager \<Rightarrow> ConnectionManager" where
  "apply_call (Connect nt ws user_id) self =
     (case connect nt ws user_id self of Inl e \<Rightarrow> self | Inr self' \<Rightarrow> self')"
| "apply_call (Disconnect ws user_id) self = disconnect ws user_id self"
| "apply_call (SendPersonalMessage nt message user_id) self =
     fst (send_personal_message nt message user_id self)"

fun run_calls :: "'m call list \<Rightarrow> ConnectionManager \<Rightarrow> ConnectionManager" where
  "run_calls [] self = self"
| "run_calls (c # cs) self = run_calls cs (apply_call c self)"

definition lists_nonempty :: "ConnectionManager \<Rightarrow> bool" where
  "lists_nonempty self =
     (\<forall>user_id \<in> set (map fst (active_connections self)). connections_of self user_id \<noteq> [])"

subsection \<open>Concrete transports and registries\<close>

text \<open>
  \<open>net_ok\<close>: every connection is open and every send succeeds. \<open>net_stale\<close>: the same,
  but connection 1 reports \<^verbatim>\<open>DISCONNECTED\<close>. Messages are strings that serialise to
  themselves.
\<close>

definition net_ok :: "string net" where
  "net_ok = \<lparr>client_state = (\<lambda>c. CONNECTED), accept_raises = (\<lambda>c. False),
     send_raises = (\<lambda>c. False), json_dumps = Some\<rparr>"

definition net_stale :: "string net" where
  "net_stale = \<lparr>client_state = (\<lambda>c. if c = 1 then DISCONNECTED else CONNECTED),
     accept_raises = (\<lambda>c. False), send_raises = (\<lambda>c. False), json_dumps = Some\<rparr>"

definition two_users :: ConnectionManager where
  "two_users = \<lparr>active_connections = [(''A'', [1]), (''B'', [2])], events = []\<rparr>"

definition one_user :: ConnectionManager where
  "one_user = \<lparr>active_connections = [(''u1'', [1])], events = []\<rparr>"

text \<open>
  A user with two open connections, and other tasks that do one thing: while the send
  of the loop's first step is awaited, the endpoint of the first connection disconnects
  it.
\<close>

definition two_connections :: ConnectionManager where
  "two_connections = \<lparr>active_connections = [(''u1'', [1, 2])], events = []\<rparr>"

definition hangup_first :: "nat \<Rightarrow> (websocket \<times> string) list" where
  "hangup_first i = (if i = 0 then [(1, ''u1'')] else [])"

section \<open>services/notifications.py: the alert service\<close>

datatype AlertType =
  WEATHER | PRICE | YIELD | DROUGHT | FLOOD | PEST | MARKET | TECHNICAL | SYSTEM

fun alert_type_value :: "AlertType \<Rightarrow> string" where
  "alert_type_value WEATHER = ''weather''"
| "alert_type_value PRICE = ''price''"
| "alert_type_value YIELD = ''yield''"
| "alert_type_value DROUGHT = ''drought''"
| "alert_type_value FLOOD = ''flood''"
| "alert_type_value PEST = ''pest''"
| "alert_type_value MARKET = ''market''"
| "alert_type_value TECHNICAL = ''technical''"
| "alert_type_value SYSTEM = ''system''"

datatype AlertSeverity = INFO | WARNING | CRITICAL | EMERGENCY

fun severity_value :: "AlertSeverity \<Rightarrow> string" where
  "severity_value INFO = ''info''"
| "severity_value WARNING = ''warning''"
| "severity_value CRITICAL = ''critical''"
| "severity_value EMERGENCY = ''emergency''"

datatype NotificationChannel = EMAIL | SMS | PUSH | WEBSOCKET | SLACK | TELEGRAM

text \<open>
  Identifiers are UUIDs in their string form. A \<^verbatim>\<open>datetime\<close> is an instant, counted in
  microseconds; \<open>hours n\<close> is \<^verbatim>\<open>timedelta(hours=n)\<close>.
\<close>

type_synonym uuid = string
type_synonym datetime = int

definition hours :: "int \<Rightarrow> int" where
  "hours n = n * 3600000000"

text \<open>The columns of \<^verbatim>\<open>User\<close> (models/sql/user.py) that the service reads.\<close>

record User =
  user_uuid :: uuid
  email :: string
  full_name :: string
  phone_number :: "string option"
  user_is_active :: bool

text \<open>
  The table \<^verbatim>\<open>alerts\<close> (models/sql/agricultural.py). Columns whose names are used as
  parameter names by the service carry the prefix \<open>alert_\<close>.
\<close>

record Alert =
  alert_id :: uuid
  alert_user_id :: "uuid option"
  alert_country_id :: "uuid option"
  alert_crop_id :: "uuid option"
  alert_title :: string
  alert_message :: string
  alert_type :: string
  alert_severity :: string
  is_active :: bool
  is_read :: bool
  sent_email :: bool
  sent_sms :: bool
  sent_push :: bool
  data_source :: "(string \<times> string) list"
  created_at :: datetime
  alert_expires_at :: "datetime option"

text \<open>The dictionary kept in the cache \<^verbatim>\<open>active_alerts\<close> and handed to the senders.\<close>

record AlertData =
  ad_id :: uuid
  ad_title :: string
  ad_message :: string
  ad_type :: string
  ad_severity :: string
  ad_details :: "(string \<times> string) list option"
  ad_created_at :: datetime
  ad_expires_at :: "datetime option"

text \<open>The message \<^verbatim>\<open>_send_websocket\<close> builds: type, data and timestamp.\<close>

datatype ws_message = AlertMessage AlertData datetime

text \<open>
  What lies outside the program during one call of the service: the readings of the
  application clock (in the order the code takes them), the clock of the database server
  that fills \<^verbatim>\<open>created_at\<close>, the UUID the new row gets, whether the commit, the
  refresh after it or the query for the users raises, whether the mail server or the SMS
  provider raises for a recipient, and the transport of the push connections.
\<close>

record env =
  now_expiry :: datetime
  now_cached :: datetime
  now_ws :: datetime
  db_now :: datetime
  new_uuid :: uuid
  commit_raises :: bool
  refresh_raises :: bool
  users_query_raises :: bool
  smtp_raises :: "string \<Rightarrow> bool"
  twilio_raises :: "string \<Rightarrow> bool"
  network :: "ws_message net"

text \<open>\<^verbatim>\<open>NotificationService.__init__\<close>: the mail host and whether a Twilio client was built.\<close>

record NotificationService =
  smtp_host :: "string option"
  twilio_client :: bool

datatype log_entry =
    EmailSent string | EmailError py_error | SmsSent string | SmsError
  | WebSocketSent uuid | PushTodo string
  | AlertCreateError | NotificationError | WeatherCheckError | PriceCheckError | MarkReadError py_error
  | ChecksStarted | ChecksDone

text \<open>
  The state the service works on: the two tables, the cache \<^verbatim>\<open>active_alerts\<close>, the
  global \<^verbatim>\<open>websocket_manager\<close>, what has left through mail and SMS (recipient, title and,
  for an SMS, the first 100 characters of the message) and what was printed.
\<close>

record world =
  db_alerts :: "Alert list"
  db_users :: "User list"
  active_alerts :: "(uuid \<times> AlertData) list"
  websocket_manager :: ConnectionManager
  emails_sent :: "(string \<times> string) list"
  sms_sent :: "(string \<times> string \<times> string) list"
  log :: "log_entry list"

text \<open>Truth value of an optional string: \<^verbatim>\<open>None\<close> and the empty string are falsy.\<close>

fun truthy :: "string option \<Rightarrow> bool" where
  "truthy None = False"
| "truthy (Some s) = (s \<noteq> [])"

text \<open>
  The names the top level of the module binds: its imports, classes, functions and
  globals. Lines 14 and 15 ask \<^verbatim>\<open>email.mime.text\<close> and \<^verbatim>\<open>email.mime.multipart\<close> for
  \<^verbatim>\<open>MimeText\<close> and \<^verbatim>\<open>MimeMultipart\<close>; the library has \<^verbatim>\<open>MIMEText\<close> and
  \<^verbatim>\<open>MIMEMultipart\<close> and no such names, so nothing binds these two and they are not in
  the list. A function body that uses a name that is not bound raises at that statement.
\<close>

definition module_globals :: "string list" where
  "module_globals =
     [''asyncio'', ''json'', ''datetime'', ''timedelta'', ''List'', ''Dict'', ''Any'',
      ''Optional'', ''Union'', ''Enum'', ''BackgroundTasks'', ''smtplib'',
      ''TwilioClient'', ''requests'', ''get_settings'', ''get_redis'',
      ''get_db'', ''get_mongodb'', ''websocket_manager'', ''User'', ''Alert'', ''Country'',
      ''Crop'', ''settings'', ''AlertType'', ''AlertSeverity'', ''NotificationChannel'',
      ''AlertCondition'', ''NotificationService'', ''AlertService'', ''alert_service'',
      ''create_system_alert'', ''run_alert_checks'']"

text \<open>
  \<^verbatim>\<open>_send_email\<close> returns at once without a mail host or an address. Its \<^verbatim>\<open>try\<close>
  block first builds the message with \<^verbatim>\<open>MimeMultipart\<close>, renders the template, wraps it
  with \<^verbatim>\<open>MimeText\<close> and then talks to the mail server; whatever raises on the way is
  printed by the handler and the sender ends. A mail is recorded by its recipient and
  the title of the alert.
\<close>

definition send_email :: "NotificationService \<Rightarrow> env \<Rightarrow> User \<Rightarrow> AlertData \<Rightarrow> world \<Rightarrow> world" where
  "send_email self ev user alert w =
     (if \<not> truthy (smtp_host self) \<or> email user = [] then w
      else if ''MimeMultipart'' \<notin> set module_globals
      then w\<lparr>log := log w @ [EmailError NameError]\<rparr>
      else if ''MimeText'' \<notin> set module_globals
      then w\<lparr>log := log w @ [EmailError NameError]\<rparr>
      else if smtp_raises ev (email user) then w\<lparr>log := log w @ [EmailError SmtpError]\<rparr>
      else w\<lparr>emails_sent := emails_sent w @ [(email user, ad_title alert)],
             log := log w @ [EmailSent (email user)]\<rparr>)"

definition send_sms :: "NotificationService \<Rightarrow> env \<Rightarrow> User \<Rightarrow> AlertData \<Rightarrow> world \<Rightarrow> world" where
  "send_sms self ev user alert w =
     (case phone_number user of
        None \<Rightarrow> w
      | Some phone \<Rightarrow>
          if \<not> twilio_client self \<or> phone = [] then w
          else if twilio_raises ev phone then w\<lparr>log := log w @ [SmsError]\<rparr>
          else w\<lparr>sms_sent := sms_sent w @ [(phone, ad_title alert, take 100 (ad_message alert))],
                 log := log w @ [SmsSent phone]\<rparr>)"

definition send_websocket :: "env \<Rightarrow> User \<Rightarrow> AlertData \<Rightarrow> world \<Rightarrow> world" where
  "send_websocket ev user alert w =
     w\<lparr>websocket_manager :=
         fst (send_personal_message (network ev) (AlertMessage alert (now_ws ev))
                (user_uuid user) (websocket_manager w)),
       log := log w @ [WebSocketSent (user_uuid user)]\<rparr>"

definition send_push_notification :: "User \<Rightarrow> AlertData \<Rightarrow> world \<Rightarrow> world" where
  "send_push_notification user alert w = w\<lparr>log := log w @ [PushTodo (ad_title alert)]\<rparr>"

text \<open>
  The task \<^verbatim>\<open>send_notification\<close> appends for one channel; \<^verbatim>\<open>SLACK\<close> and
  \<^verbatim>\<open>TELEGRAM\<close> match no branch and get none.
\<close>

fun channel_task :: "NotificationService \<Rightarrow> env \<Rightarrow> User \<Rightarrow> AlertData \<Rightarrow> NotificationChannel
    \<Rightarrow> world \<Rightarrow> world" where
  "channel_task self ev user alert EMAIL w = send_email self ev user alert w"
| "channel_task self ev user alert SMS w = send_sms self ev user alert w"
| "channel_task self ev user alert WEBSOCKET w = send_websocket ev user alert w"
| "channel_task self ev user alert PUSH w = send_push_notification user alert w"
| "channel_task self ev user alert SLACK w = w"
| "channel_task self ev user alert TELEGRAM w = w"

text \<open>
  \<^verbatim>\<open>asyncio.gather(*tasks, return_exceptions=True)\<close> runs the tasks and discards what
  they return; the function itself has no \<^verbatim>\<open>return\<close>. The tasks write to different
  parts of the state, so they are run here one after the other in the order of the list.
\<close>

fun run_tasks :: "NotificationService \<Rightarrow> env \<Rightarrow> User \<Rightarrow> AlertData \<Rightarrow> NotificationChannel list
    \<Rightarrow> world \<Rightarrow> world" where
  "run_tasks self ev user alert [] w = w"
| "run_tasks self ev user alert (channel # channels) w =
     run_tasks self ev user alert channels (channel_task self ev user alert channel w)"

definition send_notification :: "NotificationService \<Rightarrow> env \<Rightarrow> User \<Rightarrow> AlertData
    \<Rightarrow> NotificationChannel list \<Rightarrow> world \<Rightarrow> world \<times> py_value" where
  "send_notification self ev user alert channels w =
     (run_tasks self ev user alert channels w, PyNone)"

definition get_users_for_alert :: "world \<Rightarrow> User list" where
  "get_users_for_alert w = filter user_is_active (db_users w)"

definition get_user_notification_channels :: "User \<Rightarrow> NotificationChannel list" where
  "get_user_notification_channels user =
     [WEBSOCKET] @ (if email user \<noteq> [] then [EMAIL] else [])
       @ (if truthy (phone_number user) then [SMS] else [])"

fun notify_users :: "NotificationService \<Rightarrow> env \<Rightarrow> AlertData \<Rightarrow> User list \<Rightarrow> world \<Rightarrow> world" where
  "notify_users ns ev alert_data [] w = w"
| "notify_users ns ev alert_data (user # users) w =
     notify_users ns ev alert_data users
       (fst (send_notification ns ev user alert_data (get_user_notification_channels user) w))"

definition trigger_notifications :: "NotificationService \<Rightarrow> env \<Rightarrow> uuid \<Rightarrow> world \<Rightarrow> world" where
  "trigger_notifications ns ev aid w =
     (case map_of (active_alerts w) aid of
        None \<Rightarrow> w
      | Some alert_data \<Rightarrow>
          if users_query_raises ev then w\<lparr>log := log w @ [NotificationError]\<rparr>
          else notify_users ns ev alert_data (get_users_for_alert w) w)"

text \<open>
  \<^verbatim>\<open>create_alert\<close>. Nothing in it looks at the title, the message or the severity before
  the row is added. A commit that raises is printed and raised again to the caller, with
  no row written; a refresh that raises is printed and raised again as well, after the
  row has been committed. What goes wrong while notifying is printed and swallowed.
\<close>

definition create_alert :: "NotificationService \<Rightarrow> env \<Rightarrow> string \<Rightarrow> string \<Rightarrow> AlertType
    \<Rightarrow> AlertSeverity \<Rightarrow> uuid option \<Rightarrow> uuid option \<Rightarrow> uuid option
    \<Rightarrow> (string \<times> string) list option \<Rightarrow> datetime option \<Rightarrow> world
    \<Rightarrow> (py_error + uuid) \<times> world" where
  "create_alert ns ev title message atype severity country_id crop_id user_id details
     expires_at w =
     (if commit_raises ev then (Inl DatabaseError, w\<lparr>log := log w @ [AlertCreateError]\<rparr>)
      else
        let alert = \<lparr>alert_id = new_uuid ev,
                     alert_user_id = user_id,
                     alert_country_id = country_id,
                     alert_crop_id = crop_id,
                     alert_title = title,
                     alert_message = message,
                     alert_type = alert_type_value atype,
                     alert_severity = severity_value severity,
                     is_active = True,
                     is_read = False,
                     sent_email = False,
                     sent_sms = False,
                     sent_push = False,
                     data_source = (case details of None \<Rightarrow> [] | Some d \<Rightarrow> d),
                     created_at = db_now ev,
                     alert_expires_at =
                       Some (case expires_at of
                               None \<Rightarrow> now_expiry ev + hours 24
                             | Some e \<Rightarrow> e)\<rparr>;
            aid = alert_id alert;
            w1 = w\<lparr>db_alerts := db_alerts w @ [alert]\<rparr>
        in if refresh_raises ev
           then (Inl DatabaseError, w1\<lparr>log := log w1 @ [AlertCreateError]\<rparr>)
           else
             let w2 = w1\<lparr>active_alerts :=
                          AList.update aid
                            \<lparr>ad_id = aid, ad_title = title, ad_message = message,
                             ad_type = alert_type_value atype,
                             ad_severity = severity_value severity,
                             ad_details = details,
                             ad_created_at = now_cached ev,
                             ad_expires_at = expires_at\<rparr>
                            (active_alerts w1)\<rparr>
             in (Inr aid, trigger_notifications ns ev aid w2))"

text \<open>
  The two periodic checks. The observed values are the constants written in the code;
  the texts are given without their accents and symbols. An exception of
  \<^verbatim>\<open>create_alert\<close> is printed and swallowed.
\<close>

definition canicule_message :: string where
  "canicule_message =
     ''Temperature elevee detectee: 38 C. Risque de stress hydrique pour les cultures.''"

definition canicule_details :: "(string \<times> string) list" where
  "canicule_details =
     [(''temperature'', ''38 C''), (''seuil'', ''35 C''),
      (''recommandation'', ''Augmenter l'irrigation si possible'')]"

definition check_weather_conditions :: "NotificationService \<Rightarrow> env \<Rightarrow> world \<Rightarrow> world" where
  "check_weather_conditions ns ev w =
     (let temperature_threshold = (35::int);
          current_temp = (38::int)
      in if current_temp > temperature_threshold
         then (case create_alert ns ev ''Alerte Canicule'' canicule_message WEATHER WARNING
                      None None None (Some canicule_details) None w of
                 (Inl e, w') \<Rightarrow> w'\<lparr>log := log w' @ [WeatherCheckError]\<rparr>
               | (Inr aid, w') \<Rightarrow> w')
         else w)"

definition cacao_message :: string where
  "cacao_message = ''Le prix du cacao a chute de 18% cette semaine.''"

definition cacao_details :: "(string \<times> string) list" where
  "cacao_details =
     [(''variation'', ''-18%''), (''prix_actuel'', ''2,450 USD/tonne''),
      (''prix_precedent'', ''2,990 USD/tonne''),
      (''impact'', ''Revenus agriculteurs affectes'')]"

definition check_price_variations :: "NotificationService \<Rightarrow> env \<Rightarrow> world \<Rightarrow> world" where
  "check_price_variations ns ev w =
     (let price_drop_threshold = (-15::int);
          cacao_variation = (-18::int)
      in if cacao_variation < price_drop_threshold
         then (case create_alert ns ev ''Chute des Prix du Cacao'' cacao_message PRICE CRITICAL
                      None None None (Some cacao_details) None w of
                 (Inl e, w') \<Rightarrow> w'\<lparr>log := log w' @ [PriceCheckError]\<rparr>
               | (Inr aid, w') \<Rightarrow> w')
         else w)"

text \<open>One cycle of checks; each of its two alerts meets the outside world on its own.\<close>

definition run_alert_checks :: "NotificationService \<Rightarrow> env \<Rightarrow> env \<Rightarrow> world \<Rightarrow> world" where
  "run_alert_checks ns ev_weather ev_price w =
     (let w1 = w\<lparr>log := log w @ [ChecksStarted]\<rparr>;
          w2 = check_weather_conditions ns ev_weather w1;
          w3 = check_price_variations ns ev_price w2
      in w3\<lparr>log := log w3 @ [ChecksDone]\<rparr>)"

text \<open>
  \<^verbatim>\<open>mark_alert_as_read\<close> calls \<^verbatim>\<open>select(Alert)\<close>. The name \<^verbatim>\<open>select\<close> is not a local
  of the method, so it is looked up among the names the module binds at its top level
  and then among the builtins, which have no \<^verbatim>\<open>select\<close>. The two methods that do use
  \<^verbatim>\<open>select\<close> import it inside their own bodies, which binds it for them alone. A name
  that is not found raises \<^verbatim>\<open>NameError\<close>; the handler of the method prints it and the
  method ends. The method takes the module's names as \<open>globals\<close>; the module as written
  has \<open>module_globals\<close>.
\<close>

definition mark_alert_as_read :: "string list \<Rightarrow> env \<Rightarrow> uuid \<Rightarrow> uuid \<Rightarrow> world
    \<Rightarrow> world \<times> py_value" where
  "mark_alert_as_read globals ev aid user_id w =
     (if ''select'' \<notin> set globals
      then (w\<lparr>log := log w @ [MarkReadError NameError]\<rparr>, PyNone)
      else (case find (\<lambda>a. alert_id a = aid) (db_alerts w) of
              None \<Rightarrow> (w, PyNone)
            | Some alert \<Rightarrow>
                if commit_raises ev
                then (w\<lparr>log := log w @ [MarkReadError DatabaseError]\<rparr>, PyNone)
                else (w\<lparr>db_alerts :=
                          map (\<lambda>a. if alert_id a = aid then a\<lparr>is_read := True\<rparr> else a)
                            (db_alerts w)\<rparr>, PyNone)))"

subsection \<open>Properties to state the claims with\<close>

text \<open>
  \<open>records_outcome r ch\<close>: the value \<open>r\<close> is a dictionary with an entry for the channel
  \<open>ch\<close>. \<open>weather_alerts\<close>: the rows of type weather. \<open>is_email_log\<close> and
  \<open>is_push_log\<close>: the lines the email sender and the push sender print.
\<close>

fun is_email_log :: "log_entry \<Rightarrow> bool" where
  "is_email_log (EmailSent r) = True"
| "is_email_log (EmailError e) = True"
| "is_email_log l = False"

fun is_push_log :: "log_entry \<Rightarrow> bool" where
  "is_push_log (PushTodo t) = True"
| "is_push_log l = False"

text \<open>
  \<open>email_line\<close>: the line the email sender prints for one entry of the list, once the
  mail host and the address are there.
\<close>

definition email_line :: "env \<Rightarrow> User \<Rightarrow> log_entry" where
  "email_line ev user =
     (if ''MimeMultipart'' \<notin> set module_globals \<or> ''MimeText'' \<notin> set module_globals
      then EmailError NameError
      else if smtp_raises ev (email user) then EmailError SmtpError
      else EmailSent (email user))"

definition records_outcome :: "py_value \<Rightarrow> string \<Rightarrow> bool" where
  "records_outcome r ch = (case r of PyDict outcome \<Rightarrow> map_of outcome ch \<noteq> None | _ \<Rightarrow> False)"

definition weather_alerts :: "world \<Rightarrow> Alert list" where
  "weather_alerts w = filter (\<lambda>a. alert_type a = ''weather'') (db_alerts w)"

subsection \<open>Concrete surroundings\<close>

text \<open>
  A transport on which every connection is open but \<^verbatim>\<open>json.dumps\<close> raises on the alert
  message (the cached alert holds a \<^verbatim>\<open>datetime\<close>), an outside world in which nothing
  fails and one in which the SMS provider does, a configured service, a user with an
  address and a phone number, an empty store, and an alert as cached and as stored.
\<close>

definition alert_net :: "ws_message net" where
  "alert_net = \<lparr>client_state = (\<lambda>c. CONNECTED), accept_raises = (\<lambda>c. False),
     send_raises = (\<lambda>c. False), json_dumps = (\<lambda>m. None)\<rparr>"

definition env_ok :: env where
  "env_ok = \<lparr>now_expiry = 1000005, now_cached = 1000006, now_ws = 1000007,
     db_now = 1000000, new_uuid = ''a1'', commit_raises = False,
     refresh_raises = False, users_query_raises = False,
     smtp_raises = (\<lambda>r. False), twilio_raises = (\<lambda>r. False), network = alert_net\<rparr>"

definition env_sms_down :: env where
  "env_sms_down = env_ok\<lparr>twilio_raises := (\<lambda>r. True)\<rparr>"

definition service :: NotificationService where
  "service = \<lparr>smtp_host = Some ''smtp.example.org'', twilio_client = True\<rparr>"

definition user1 :: User where
  "user1 = \<lparr>user_uuid = ''u1'', email = ''u1@example.org'', full_name = ''User One'',
     phone_number = Some ''+22890000000'', user_is_active = True\<rparr>"

definition empty_world :: world where
  "empty_world = \<lparr>db_alerts = [], db_users = [], active_alerts = [],
     websocket_manager = init_manager, emails_sent = [], sms_sent = [], log = []\<rparr>"

definition heat_alert :: AlertData where
  "heat_alert = \<lparr>ad_id = ''a1'', ad_title = ''Heatwave'', ad_message = ''38 C'',
     ad_type = ''weather'', ad_severity = ''warning'', ad_details = None,
     ad_created_at = 1000006, ad_expires_at = None\<rparr>"

definition unread_alert :: Alert where
  "unread_alert = \<lparr>alert_id = ''a1'', alert_user_id = None, alert_country_id = None,
     alert_crop_id = None, alert_title = ''Heatwave'', alert_message = ''38 C'',
     alert_type = ''weather'', alert_severity = ''warning'', is_active = True,
     is_read = False, sent_email = False, sent_sms = False, sent_push = False,
     data_source = [], created_at = 1000000, alert_expires_at = Some 86401000000\<rparr>"

section \<open>Condition evaluation\<close>

text \<open>
  C5. \<open>evaluate\<close> applies the operator of the condition, looked up in the table
  \<open>>\<close>, \<open><\<close>, \<open>>=\<close>, \<open><=\<close>, \<open>==\<close>, \<open>!=\<close>, to the observed value and the threshold and
  returns that comparison: on finite values it is the order and the equality of the
  numbers themselves. Any operator string outside the table gives false, whatever the
  values. With \<open>>\<close> and threshold 35, observed 38 is true and observed 35 is false; the
  operator \<open>~=\<close> is false. With NaN on either side only \<open>!=\<close> holds, and the infinities
  lie below and above every finite value and equal themselves.
\<close>

theorem evaluate_operator_table:
  "evaluate \<lparr>metric = m, operator = opr, cond_value = Finite t, duration_minutes = d\<rparr>
       (Finite v) =
     (if opr = ''>'' then v > t
      else if opr = ''<'' then v < t
      else if opr = ''>='' then v \<ge> t
      else if opr = ''<='' then v \<le> t
      else if opr = ''=='' then v = t
      else if opr = ''!='' then v \<noteq> t
      else False)
   \<and> (operator c \<notin> set [''>'', ''<'', ''>='', ''<='', ''=='', ''!='']
        \<longrightarrow> evaluate c x = False)
   \<and> evaluate \<lparr>metric = m, operator = ''>'', cond_value = Finite 35, duration_minutes = d\<rparr>
         (Finite 38) = True
   \<and> evaluate \<lparr>metric = m, operator = ''>'', cond_value = Finite 35, duration_minutes = d\<rparr>
         (Finite 35) = False
   \<and> evaluate \<lparr>metric = m, operator = ''~='', cond_value = Finite 35, duration_minutes = d\<rparr>
         (Finite 38) = False
   \<and> evaluate c NaN = (operator c = ''!='')
   \<and> evaluate \<lparr>metric = m, operator = opr, cond_value = NaN, duration_minutes = d\<rparr> x =
       (opr = ''!='')
   \<and> evaluate \<lparr>metric = m, operator = opr, cond_value = Finite t, duration_minutes = d\<rparr>
         PosInf = (opr \<in> set [''>'', ''>='', ''!=''])
   \<and> evaluate \<lparr>metric = m, operator = opr, cond_value = Finite t, duration_minutes = d\<rparr>
         NegInf = (opr \<in> set [''<'', ''<='', ''!=''])
   \<and> evaluate \<lparr>metric = m, operator = opr, cond_value = PosInf, duration_minutes = d\<rparr>
         (Finite v) = (opr \<in> set [''<'', ''<='', ''!=''])
   \<and> evaluate \<lparr>metric = m, operator = opr, cond_value = NegInf, duration_minutes = d\<rparr>
         (Finite v) = (opr \<in> set [''>'', ''>='', ''!=''])
   \<and> evaluate \<lparr>metric = m, operator = opr, cond_value = PosInf, duration_minutes = d\<rparr>
         PosInf = (opr \<in> set [''>='', ''<='', ''==''])
   \<and> evaluate \<lparr>metric = m, operator = opr, cond_value = NegInf, duration_minutes = d\<rparr>
         NegInf = (opr \<in> set [''>='', ''<='', ''==''])
   \<and> evaluate \<lparr>metric = m, operator = opr, cond_value = NegInf, duration_minutes = d\<rparr>
         PosInf = (opr \<in> set [''>'', ''>='', ''!=''])
   \<and> evaluate \<lparr>metric = m, operator = opr, cond_value = PosInf, duration_minutes = d\<rparr>
         NegInf = (opr \<in> set [''<'', ''<='', ''!=''])"
proof -
  have nan_l: "float_lt NaN b = False" "float_eq NaN b = False" for b
    by simp_all
  have nan_r: "float_lt a NaN = False" "float_eq a NaN = False" for a
    by (cases a; simp)+
  show ?thesis
    by (cases x)
      (auto simp: evaluate_def operators_def float_gt_def float_ge_def float_le_def
        float_ne_def nan_l nan_r)
qed

theorem evaluate_operator_table_witness:
  "''~='' \<notin> set [''>'', ''<'', ''>='', ''<='', ''=='', ''!='']
   \<and> evaluate \<lparr>metric = ''temperature'', operator = ''~='', cond_value = Finite 35,
         duration_minutes = 0\<rparr> (Finite 38) = False
   \<and> evaluate \<lparr>metric = ''temperature'', operator = ''>='', cond_value = Finite 35,
         duration_minutes = 0\<rparr> (Finite 35) = True
   \<and> evaluate \<lparr>metric = ''temperature'', operator = ''!='', cond_value = Finite 35,
         duration_minutes = 0\<rparr> (Finite 35) = False"
  using evaluate_operator_table [of "''temperature''" "''~=''" 35 0 38
      "\<lparr>metric = ''temperature'', operator = ''~='', cond_value = Finite 35,
        duration_minutes = 0\<rparr>" "Finite 38"]
    evaluate_operator_table [of "''temperature''" "''>=''" 35 0 35]
    evaluate_operator_table [of "''temperature''" "''!=''" 35 0 35]
  by simp

section \<open>The connection registry\<close>

subsection \<open>What one send does\<close>

lemma is_sent_send_one: "is_sent (send_one nt m c) = deliverable nt m c"
  by (auto simp: send_one_def deliverable_def split: option.splits)

lemma send_loop_eq:
  "send_loop nt m cs disc evs =
     (disc @ filter (\<lambda>c. \<not> deliverable nt m c) cs, evs @ map (send_one nt m) cs)"
  by (induction cs arbitrary: disc evs) (simp_all add: Let_def is_sent_send_one)

lemma connections_of_disconnect:
  "connections_of (disconnect w u s) u' =
     (if u' = u then remove1 w (connections_of s u) else connections_of s u')"
  by (auto simp: connections_of_def disconnect_def update_conv' delete_conv' remove1_idem
      split: option.splits)

lemma events_disconnect: "events (disconnect w u s) = events s"
  by (simp add: disconnect_def split: option.splits)

lemma events_prune_loop: "events (prune_loop ds u s) = events s"
  by (induction ds arbitrary: s) (simp_all add: events_disconnect)

lemma connections_of_prune_loop:
  "connections_of (prune_loop ds u s) u' =
     (if u' = u then foldl (\<lambda>cs d. remove1 d cs) (connections_of s u) ds
      else connections_of s u')"
  by (induction ds arbitrary: s) (simp_all add: connections_of_disconnect)

lemma foldl_remove1_filter:
  "\<forall>x \<in> set xs. \<not> P x \<Longrightarrow>
   foldl (\<lambda>cs d. remove1 d cs) (xs @ ys) (filter P ys) = xs @ filter (\<lambda>c. \<not> P c) ys"
proof (induction ys arbitrary: xs)
  case Nil
  then show ?case by simp
next
  case (Cons y ys)
  show ?case
  proof (cases "P y")
    case True
    with Cons.prems have "y \<notin> set xs" by auto
    then have "remove1 y (xs @ y # ys) = xs @ ys" by (simp add: remove1_append)
    with True Cons.IH [OF Cons.prems] show ?thesis by simp
  next
    case False
    with Cons.prems have "\<forall>x \<in> set (xs @ [y]). \<not> P x" by simp
    from Cons.IH [OF this] False show ?thesis by simp
  qed
qed

lemma connections_of_send:
  "connections_of (fst (send_personal_message nt m u s)) u' =
     (if u' = u then filter (deliverable nt m) (connections_of s u) else connections_of s u')"
proof (cases "map_of (active_connections s) u")
  case None
  then show ?thesis by (simp add: send_personal_message_def connections_of_def)
next
  case (Some conns)
  have c: "connections_of (s\<lparr>events := e\<rparr>) v = connections_of s v" for e v
    by (simp add: connections_of_def)
  from Some have "connections_of s u = conns" by (simp add: connections_of_def)
  with Some foldl_remove1_filter [of "[]" "\<lambda>c. \<not> deliverable nt m c" conns]
  show ?thesis
    by (simp add: send_personal_message_def send_loop_eq connections_of_prune_loop c)
qed

lemma events_send:
  "events (fst (send_personal_message nt m u s)) =
     events s @ map (send_one nt m) (connections_of s u)"
  by (simp add: send_personal_message_def send_loop_eq events_prune_loop connections_of_def
      split: option.splits)

lemma snd_send: "snd (send_personal_message nt m u s) = PyNone"
  by (simp add: send_personal_message_def split: option.splits prod.splits)

text \<open>
  When no other task touches the registry during the call, the call does what the atomic
  \<open>send_personal_message\<close> does: the user's list keeps exactly the connections that were
  \<^verbatim>\<open>CONNECTED\<close> and took the text, the other users' lists stay, and every connection
  of the user gets one event, in order.
\<close>

lemma send_personal_message_atomic:
  "connections_of (fst (send_personal_message nt m u s)) u' =
     (if u' = u
      then filter (\<lambda>c. client_state nt c = CONNECTED \<and> json_dumps nt m \<noteq> None
                        \<and> \<not> send_raises nt c) (connections_of s u)
      else connections_of s u')
   \<and> events (fst (send_personal_message nt m u s)) =
       events s @
       map (\<lambda>c. if client_state nt c \<noteq> CONNECTED then NotConnected c
                 else case json_dumps nt m of
                        None \<Rightarrow> SendError c
                      | Some txt \<Rightarrow> if send_raises nt c then SendError c else Sent c txt)
         (connections_of s u)"
proof -
  have "send_one nt m = (\<lambda>c. if client_state nt c \<noteq> CONNECTED then NotConnected c
                 else case json_dumps nt m of
                        None \<Rightarrow> SendError c
                      | Some txt \<Rightarrow> if send_raises nt c then SendError c else Sent c txt)"
    by (rule ext) (simp add: send_one_def)
  moreover have "deliverable nt m = (\<lambda>c. client_state nt c = CONNECTED
      \<and> json_dumps nt m \<noteq> None \<and> \<not> send_raises nt c)"
    by (rule ext) (simp add: deliverable_def)
  ultimately show ?thesis
    using connections_of_send [of nt m u s u'] events_send [of nt m u s] by simp
qed

lemma connections_of_events_update:
  "connections_of (s\<lparr>events := e\<rparr>) v = connections_of s v"
  by (simp add: connections_of_def)

lemma send_loop_live_quiet:
  "connections_of self u = conns \<Longrightarrow> i \<le> length conns \<Longrightarrow>
   send_loop_live nt m u (\<lambda>k. []) (\<lambda>k. False) [i..<length conns] disc self =
     (None, disc @ filter (\<lambda>c. \<not> deliverable nt m c) (drop i conns),
      self\<lparr>events := events self @ map (send_one nt m) (drop i conns)\<rparr>)"
proof (induction "length conns - i" arbitrary: i disc self)
  case 0
  then show ?case by simp
next
  case (Suc n)
  then have less: "i < length conns" by simp
  then have upt: "[i..<length conns] = i # [Suc i..<length conns]"
    by (simp add: upt_conv_Cons)
  from less have dr: "drop i conns = conns ! i # drop (Suc i) conns"
    by (simp add: Cons_nth_drop_Suc)
  have n: "n = length conns - Suc i" using Suc.hyps(2) by simp
  have c: "connections_of (self\<lparr>events := events self @ [send_one nt m (conns ! i)]\<rparr>) u = conns"
    using Suc.prems(1) by (simp add: connections_of_events_update)
  from less have le: "Suc i \<le> length conns" by simp
  show ?case
    unfolding upt
    using less Suc.prems(1) Suc.hyps(1) [OF n c le]
    by (simp add: Let_def dr is_sent_send_one)
qed

lemma send_personal_message_live_quiet:
  "send_personal_message_live nt m u (\<lambda>k. []) (\<lambda>k. False) s =
     (fst (send_personal_message nt m u s), Inr (snd (send_personal_message nt m u s)))"
proof (cases "map_of (active_connections s) u")
  case None
  then show ?thesis by (simp add: send_personal_message_live_def send_personal_message_def)
next
  case (Some conns)
  then have "connections_of s u = conns" by (simp add: connections_of_def)
  from send_loop_live_quiet [OF this, of 0 nt m "[]"] Some show ?thesis
    by (simp add: send_personal_message_live_def send_personal_message_def send_loop_eq)
qed

lemma send_personal_message_live_no_connection:
  "connections_of s u = [] \<Longrightarrow>
   send_personal_message_live nt m u others cancelled s = (s, Inr PyNone)"
  by (simp add: send_personal_message_live_def connections_of_def split: option.splits)

lemma send_loop_live_error:
  "send_loop_live nt m u others cancelled idxs disc s = (Some e, disc', s') \<Longrightarrow>
   e = CancelledError"
  by (induction idxs arbitrary: disc s) (auto simp: Let_def split: if_splits)

lemma send_personal_message_live_result:
  "(case snd (send_personal_message_live nt m u others cancelled s) of
      Inl e \<Rightarrow> e = CancelledError
    | Inr v \<Rightarrow> v = PyNone)"
  by (auto simp: send_personal_message_live_def split: option.splits prod.splits
      dest: send_loop_live_error)

text \<open>
  C3, as the code has it. \<open>send_personal_message\<close> has no \<^verbatim>\<open>return\<close> statement: what
  it returns is \<^verbatim>\<open>None\<close>, never a count, for every user and message. That is so whether
  or not other tasks disconnect during its awaits; only a cancellation of the task in
  an await ends the call otherwise. For a user with no registered connection the call
  returns \<^verbatim>\<open>None\<close> (not zero) and no error, whatever the other tasks do, hands the
  message to no connection and leaves the registry as it was.
\<close>

theorem send_personal_message_returns_none:
  "snd (send_personal_message nt m u s) = PyNone
   \<and> (case snd (send_personal_message_live nt m u others cancelled s) of
        Inl e \<Rightarrow> e = CancelledError
      | Inr v \<Rightarrow> v = PyNone)
   \<and> snd (send_personal_message_live nt m u others (\<lambda>k. False) s) = Inr PyNone
   \<and> (connections_of s u = [] \<longrightarrow>
        send_personal_message nt m u s = (s, PyNone)
      \<and> send_personal_message_live nt m u others cancelled s = (s, Inr PyNone))"
proof (intro conjI impI)
  show "snd (send_personal_message nt m u s) = PyNone" by (rule snd_send)
  show "case snd (send_personal_message_live nt m u others cancelled s) of
        Inl e \<Rightarrow> e = CancelledError
      | Inr v \<Rightarrow> v = PyNone"
    by (rule send_personal_message_live_result)
  have "send_loop_live nt m u others (\<lambda>k. False) idxs disc s' \<noteq> (Some e, disc', s'')"
    for idxs disc s' e disc' s''
    by (induction idxs arbitrary: disc s') (auto simp: Let_def)
  then show "snd (send_personal_message_live nt m u others (\<lambda>k. False) s) = Inr PyNone"
    by (auto simp: send_personal_message_live_def split: option.splits prod.splits)
next
  assume e: "connections_of s u = []"
  then show "send_personal_message_live nt m u others cancelled s = (s, Inr PyNone)"
    by (rule send_personal_message_live_no_connection)
  from e show "send_personal_message nt m u s = (s, PyNone)"
    by (simp add: send_personal_message_def connections_of_def split: option.splits)
qed

theorem send_personal_message_returns_none_witness:
  "connections_of one_user ''nobody'' = []
   \<and> send_personal_message net_ok ''hi'' ''nobody'' one_user = (one_user, PyNone)
   \<and> send_personal_message_live net_ok ''hi'' ''nobody'' hangup_first (\<lambda>k. True) one_user =
       (one_user, Inr PyNone)
   \<and> snd (send_personal_message net_ok ''hi'' ''u1'' one_user) = PyNone"
  using send_personal_message_returns_none
      [of net_ok "''hi''" "''nobody''" one_user hangup_first "\<lambda>k. True"]
    send_personal_message_returns_none
      [of net_ok "''hi''" "''u1''" one_user hangup_first "\<lambda>k. True"]
  by (simp add: connections_of_def one_user_def)

text \<open>
  The claim as the specification words it fails: with one open connection the message
  is handed to one connection and the call returns \<^verbatim>\<open>None\<close>, not the count 1; for a
  user without connections it returns \<^verbatim>\<open>None\<close>, not 0.
\<close>

theorem send_personal_message_count_counterexample:
  "snd (send_personal_message net_ok ''hi'' ''u1'' one_user) \<noteq>
     PyInt (int (length (filter is_sent
       (events (fst (send_personal_message net_ok ''hi'' ''u1'' one_user))))))
   \<and> length (filter is_sent
       (events (fst (send_personal_message net_ok ''hi'' ''u1'' one_user)))) = 1
   \<and> snd (send_personal_message net_ok ''hi'' ''nobody'' one_user) \<noteq> PyInt 0"
  by (simp add: send_personal_message_def one_user_def net_ok_def send_one_def)

text \<open>
  C8, at a user with two open connections: the message is handed to the first one, and
  while that send is awaited the endpoint of the first connection disconnects it. The
  list shrinks under the loop, whose index has moved on, so the loop ends without a send
  to the second connection, which was registered at the call and still is. Without the
  disconnect both connections are sent the message.
\<close>

theorem send_personal_message_live_skips_connection:
  "send_personal_message_live net_ok ''hi'' ''u1'' hangup_first (\<lambda>i. False) two_connections =
     (\<lparr>active_connections = [(''u1'', [2])], events = [Sent 1 ''hi'']\<rparr>, Inr PyNone)
   \<and> send_personal_message net_ok ''hi'' ''u1'' two_connections =
     (\<lparr>active_connections = [(''u1'', [1, 2])], events = [Sent 1 ''hi'', Sent 2 ''hi'']\<rparr>,
      PyNone)"
  by (simp add: send_personal_message_live_def send_personal_message_def two_connections_def
      hangup_first_def net_ok_def send_one_def connections_of_def disconnect_def Let_def)

subsection \<open>Keys always have a connection\<close>

lemma lists_nonempty_iff:
  "lists_nonempty s \<longleftrightarrow> (\<forall>u cs. map_of (active_connections s) u = Some cs \<longrightarrow> cs \<noteq> [])"
proof
  assume inv: "lists_nonempty s"
  show "\<forall>u cs. map_of (active_connections s) u = Some cs \<longrightarrow> cs \<noteq> []"
  proof (intro allI impI)
    fix u cs
    assume look: "map_of (active_connections s) u = Some cs"
    then have "u \<in> fst ` set (active_connections s)"
      using map_of_eq_None_iff [of "active_connections s" u] by simp
    with inv have "connections_of s u \<noteq> []" by (auto simp: lists_nonempty_def)
    with look show "cs \<noteq> []" by (simp add: connections_of_def)
  qed
next
  assume r: "\<forall>u cs. map_of (active_connections s) u = Some cs \<longrightarrow> cs \<noteq> []"
  show "lists_nonempty s"
    unfolding lists_nonempty_def
  proof
    fix u
    assume "u \<in> set (map fst (active_connections s))"
    then obtain cs where look: "map_of (active_connections s) u = Some cs"
      using map_of_eq_None_iff [of "active_connections s" u] by auto
    with r have "cs \<noteq> []" by blast
    with look show "connections_of s u \<noteq> []" by (simp add: connections_of_def)
  qed
qed

lemma lists_nonempty_init: "lists_nonempty init_manager"
  by (simp add: lists_nonempty_def init_manager_def)

lemma lists_nonempty_connect:
  "lists_nonempty s \<Longrightarrow> connect nt ws u s = Inr s' \<Longrightarrow> lists_nonempty s'"
  by (fastforce simp: lists_nonempty_iff connect_def update_conv' split: if_splits)

lemma lists_nonempty_disconnect: "lists_nonempty s \<Longrightarrow> lists_nonempty (disconnect ws u s)"
  by (fastforce simp: lists_nonempty_iff disconnect_def update_conv' delete_conv'
      split: option.splits if_splits)

lemma lists_nonempty_prune_loop: "lists_nonempty s \<Longrightarrow> lists_nonempty (prune_loop ds u s)"
  by (induction ds arbitrary: s) (simp_all add: lists_nonempty_disconnect)

lemma lists_nonempty_events: "lists_nonempty (s\<lparr>events := e\<rparr>) = lists_nonempty s"
  by (simp add: lists_nonempty_def connections_of_def)

lemma lists_nonempty_send:
  "lists_nonempty s \<Longrightarrow> lists_nonempty (fst (send_personal_message nt m u s))"
  by (simp add: send_personal_message_def lists_nonempty_prune_loop lists_nonempty_events
      split: option.splits prod.splits)

lemma lists_nonempty_apply_call: "lists_nonempty s \<Longrightarrow> lists_nonempty (apply_call c s)"
  by (cases c)
    (auto simp: lists_nonempty_disconnect lists_nonempty_send
      intro: lists_nonempty_connect split: sum.splits)

lemma lists_nonempty_run_calls: "lists_nonempty s \<Longrightarrow> lists_nonempty (run_calls cs s)"
  by (induction cs arbitrary: s) (simp_all add: lists_nonempty_apply_call)

text \<open>
  C10. Starting from the empty registry of \<^verbatim>\<open>__init__\<close>, after any sequence of
  \<open>connect\<close>, \<open>disconnect\<close> and \<open>send_personal_message\<close> calls every user id that is a
  key of \<^verbatim>\<open>active_connections\<close> maps to a non-empty list.
\<close>

theorem registered_key_has_connection:
  "lists_nonempty (run_calls cs init_manager)"
  by (rule lists_nonempty_run_calls [OF lists_nonempty_init])

theorem registered_key_has_connection_witness:
  "lists_nonempty (run_calls [Connect net_ok 1 ''u1'', Connect net_ok 2 ''u1'',
      Connect net_ok 3 ''u2'', SendPersonalMessage net_stale ''hi'' ''u1'',
      Disconnect 3 ''u2''] init_manager)
   \<and> active_connections (run_calls [Connect net_ok 1 ''u1'', Connect net_ok 2 ''u1'',
      Connect net_ok 3 ''u2'', SendPersonalMessage net_stale ''hi'' ''u1'',
      Disconnect 3 ''u2''] init_manager) = [(''u1'', [2])]"
  using registered_key_has_connection [of "[Connect net_ok 1 ''u1'', Connect net_ok 2 ''u1'',
      Connect net_ok 3 ''u2'', SendPersonalMessage net_stale ''hi'' ''u1'',
      Disconnect 3 ''u2'']"]
  by (simp add: init_manager_def connect_def net_ok_def net_stale_def send_personal_message_def
      send_one_def disconnect_def Let_def)

subsection \<open>Broadcast\<close>

text \<open>
  C6, at a registry with a user A whose only connection is stale and a user B with an
  open one: pruning A's connection deletes A's key while \<open>broadcast\<close> iterates the
  dictionary, the next step of the iteration raises \<^verbatim>\<open>RuntimeError\<close>, and B's
  connection is never sent the message.
\<close>

theorem broadcast_stale_user_aborts:
  "broadcast net_stale ''hi'' two_users =
     (Some RuntimeError, \<lparr>active_connections = [(''B'', [2])], events = [NotConnected 1]\<rparr>)"
  by (simp add: broadcast_def two_users_def net_stale_def send_personal_message_def
      send_one_def disconnect_def Let_def)

section \<open>The alert service\<close>

subsection \<open>What the senders leave alone\<close>

lemma channel_task_tables:
  "db_alerts (channel_task ns ev user alert ch w) = db_alerts w
   \<and> db_users (channel_task ns ev user alert ch w) = db_users w
   \<and> active_alerts (channel_task ns ev user alert ch w) = active_alerts w"
  by (cases ch)
    (simp_all add: send_email_def send_sms_def send_websocket_def send_push_notification_def
      split: option.splits)

lemma run_tasks_tables:
  "db_alerts (run_tasks ns ev user alert chs w) = db_alerts w
   \<and> db_users (run_tasks ns ev user alert chs w) = db_users w
   \<and> active_alerts (run_tasks ns ev user alert chs w) = active_alerts w"
  by (induction chs arbitrary: w) (simp_all add: channel_task_tables)

lemma notify_users_tables:
  "db_alerts (notify_users ns ev alert us w) = db_alerts w
   \<and> db_users (notify_users ns ev alert us w) = db_users w"
  by (induction us arbitrary: w) (simp_all add: send_notification_def run_tasks_tables)

lemma trigger_notifications_tables:
  "db_alerts (trigger_notifications ns ev aid w) = db_alerts w"
  by (simp add: trigger_notifications_def notify_users_tables split: option.splits)

lemma db_alerts_create_alert:
  "db_alerts (snd (create_alert ns ev title message atype severity c cr u details expiry w)) =
     (if commit_raises ev then db_alerts w
      else db_alerts w @
        [\<lparr>alert_id = new_uuid ev, alert_user_id = u, alert_country_id = c,
          alert_crop_id = cr, alert_title = title, alert_message = message,
          alert_type = alert_type_value atype, alert_severity = severity_value severity,
          is_active = True, is_read = False, sent_email = False, sent_sms = False,
          sent_push = False,
          data_source = (case details of None \<Rightarrow> [] | Some d \<Rightarrow> d),
          created_at = db_now ev,
          alert_expires_at =
            Some (case expiry of None \<Rightarrow> now_expiry ev + hours 24 | Some e \<Rightarrow> e)\<rparr>])"
  by (simp add: create_alert_def Let_def trigger_notifications_tables)


subsection \<open>Creating an alert\<close>





subsection \<open>The periodic checks\<close>

lemma db_alerts_check_weather_conditions:
  "db_alerts (check_weather_conditions ns ev w) =
     db_alerts (snd (create_alert ns ev ''Alerte Canicule'' canicule_message WEATHER WARNING
                      None None None (Some canicule_details) None w))"
  by (simp add: check_weather_conditions_def split: prod.splits sum.splits)

lemma db_alerts_check_price_variations:
  "db_alerts (check_price_variations ns ev w) =
     db_alerts (snd (create_alert ns ev ''Chute des Prix du Cacao'' cacao_message PRICE CRITICAL
                      None None None (Some cacao_details) None w))"
  by (simp add: check_price_variations_def split: prod.splits sum.splits)

lemma weather_alerts_check_weather_conditions:
  "map alert_title (weather_alerts (check_weather_conditions ns ev w)) =
     map alert_title (weather_alerts w) @
       (if commit_raises ev then [] else [''Alerte Canicule''])"
  by (simp add: weather_alerts_def db_alerts_check_weather_conditions db_alerts_create_alert)

lemma weather_alerts_run_alert_checks:
  "map alert_title (weather_alerts (run_alert_checks ns ew ep w)) =
     map alert_title (weather_alerts w) @
       (if commit_raises ew then [] else [''Alerte Canicule''])"
proof -
  have "weather_alerts (w\<lparr>log := l\<rparr>) = weather_alerts w" for l w
    by (simp add: weather_alerts_def)
  moreover have "weather_alerts (check_price_variations ns ep w') = weather_alerts w'" for w'
    by (simp add: weather_alerts_def db_alerts_check_price_variations db_alerts_create_alert)
  ultimately show ?thesis
    by (simp add: run_alert_checks_def Let_def weather_alerts_check_weather_conditions)
qed

text \<open>
  C2, as the code has it. There is no suppression window: every run of the weather check
  whose commit succeeds adds one more weather alert (the simulated temperature 38 always
  exceeds the threshold 35), so two cycles of \<open>run_alert_checks\<close> add two.
\<close>

theorem run_alert_checks_no_suppression:
  "map alert_title (weather_alerts (check_weather_conditions ns ev w)) =
     map alert_title (weather_alerts w) @
       (if commit_raises ev then [] else [''Alerte Canicule''])
   \<and> map alert_title (weather_alerts
         (run_alert_checks ns ew2 ep2 (run_alert_checks ns ew1 ep1 w))) =
     map alert_title (weather_alerts w) @
       (if commit_raises ew1 then [] else [''Alerte Canicule'']) @
       (if commit_raises ew2 then [] else [''Alerte Canicule''])"
  by (simp add: weather_alerts_check_weather_conditions weather_alerts_run_alert_checks)

text \<open>
  The claim as the specification words it fails: two check cycles one after the other,
  on an empty store, leave two weather alerts, not one.
\<close>

theorem run_alert_checks_twice_counterexample:
  "length (weather_alerts
     (run_alert_checks service (env_ok\<lparr>new_uuid := ''a3'', db_now := 1000100\<rparr>)
        (env_ok\<lparr>new_uuid := ''a4''\<rparr>)
        (run_alert_checks service env_ok (env_ok\<lparr>new_uuid := ''a2''\<rparr>) empty_world))) = 2
   \<and> length (weather_alerts
     (run_alert_checks service (env_ok\<lparr>new_uuid := ''a3'', db_now := 1000100\<rparr>)
        (env_ok\<lparr>new_uuid := ''a4''\<rparr>)
        (run_alert_checks service env_ok (env_ok\<lparr>new_uuid := ''a2''\<rparr>) empty_world))) \<noteq> 1"
proof -
  have "length (map alert_title (weather_alerts
     (run_alert_checks service (env_ok\<lparr>new_uuid := ''a3'', db_now := 1000100\<rparr>)
        (env_ok\<lparr>new_uuid := ''a4''\<rparr>)
        (run_alert_checks service env_ok (env_ok\<lparr>new_uuid := ''a2''\<rparr>) empty_world)))) = 2"
    unfolding weather_alerts_run_alert_checks
    by (simp add: env_ok_def weather_alerts_def empty_world_def)
  then show ?thesis by simp
qed

subsection \<open>Dispatch over the channels\<close>

lemma sms_sent_channel_task:
  "sms_sent (channel_task ns ev user alert ch w) =
     sms_sent w @
       (case phone_number user of
          None \<Rightarrow> []
        | Some phone \<Rightarrow>
            if ch = SMS \<and> twilio_client ns \<and> phone \<noteq> [] \<and> \<not> twilio_raises ev phone
            then [(phone, ad_title alert, take 100 (ad_message alert))] else [])"
  by (cases ch)
    (simp_all add: send_email_def send_sms_def send_websocket_def send_push_notification_def
      split: option.splits)

lemma sms_sent_run_tasks:
  "sms_sent (run_tasks ns ev user alert chs w) =
     sms_sent w @
       concat (map (\<lambda>ch. case phone_number user of
                 None \<Rightarrow> []
               | Some phone \<Rightarrow>
                   if ch = SMS \<and> twilio_client ns \<and> phone \<noteq> [] \<and> \<not> twilio_raises ev phone
                   then [(phone, ad_title alert, take 100 (ad_message alert))] else []) chs)"
  by (induction chs arbitrary: w) (simp_all add: sms_sent_channel_task)

lemma websocket_manager_channel_task:
  "websocket_manager (channel_task ns ev user alert ch w) =
     (if ch = WEBSOCKET
      then fst (send_personal_message (network ev) (AlertMessage alert (now_ws ev))
                  (user_uuid user) (websocket_manager w))
      else websocket_manager w)"
  by (cases ch)
    (simp_all add: send_email_def send_sms_def send_websocket_def send_push_notification_def
      split: option.splits)

lemma websocket_manager_run_tasks:
  "websocket_manager (run_tasks ns ev user alert chs w) =
     ((\<lambda>mgr. fst (send_personal_message (network ev) (AlertMessage alert (now_ws ev))
                    (user_uuid user) mgr)) ^^ count_list chs WEBSOCKET)
       (websocket_manager w)"
proof -
  define f where "f = (\<lambda>mgr. fst (send_personal_message (network ev)
      (AlertMessage alert (now_ws ev)) (user_uuid user) mgr))"
  have step: "websocket_manager (channel_task ns ev user alert ch w') =
      (if ch = WEBSOCKET then f (websocket_manager w') else websocket_manager w')" for ch w'
    by (simp add: websocket_manager_channel_task f_def)
  have "websocket_manager (run_tasks ns ev user alert chs w) =
      (f ^^ count_list chs WEBSOCKET) (websocket_manager w)"
  proof (induction chs arbitrary: w)
    case Nil
    then show ?case by simp
  next
    case (Cons ch chs)
    show ?case
    proof (cases "ch = WEBSOCKET")
      case True
      then show ?thesis
        using Cons.IH [of "channel_task ns ev user alert ch w"] step [of ch w]
        by (simp add: funpow_swap1)
    next
      case False
      then show ?thesis
        using Cons.IH [of "channel_task ns ev user alert ch w"] step [of ch w]
        by simp
    qed
  qed
  then show ?thesis by (simp add: f_def)
qed

lemma push_log_channel_task:
  "filter is_push_log (log (channel_task ns ev user alert ch w)) =
     filter is_push_log (log w) @ (if ch = PUSH then [PushTodo (ad_title alert)] else [])"
  by (cases ch)
    (simp_all add: send_email_def send_sms_def send_websocket_def send_push_notification_def
      split: option.splits)

lemma push_log_run_tasks:
  "filter is_push_log (log (run_tasks ns ev user alert chs w)) =
     filter is_push_log (log w) @ replicate (count_list chs PUSH) (PushTodo (ad_title alert))"
  by (induction chs arbitrary: w)
    (simp_all add: push_log_channel_task replicate_app_Cons_same)

lemma is_email_log_email_line: "is_email_log (email_line ev user)"
  by (simp add: email_line_def)

lemma email_log_channel_task:
  "filter is_email_log (log (channel_task ns ev user alert ch w)) =
     filter is_email_log (log w) @
       (if ch = EMAIL \<and> truthy (smtp_host ns) \<and> email user \<noteq> []
        then [email_line ev user] else [])"
  by (cases ch)
    (simp_all add: send_email_def send_sms_def send_websocket_def send_push_notification_def
      email_line_def split: option.splits)

lemma email_log_run_tasks:
  "filter is_email_log (log (run_tasks ns ev user alert chs w)) =
     filter is_email_log (log w) @
       (if truthy (smtp_host ns) \<and> email user \<noteq> []
        then replicate (count_list chs EMAIL) (email_line ev user) else [])"
  by (induction chs arbitrary: w)
    (simp_all add: email_log_channel_task replicate_app_Cons_same)

lemma emails_sent_channel_task:
  "emails_sent (channel_task ns ev user alert ch w) =
     emails_sent w @
       (if ch = EMAIL \<and> truthy (smtp_host ns) \<and> email user \<noteq> []
           \<and> email_line ev user = EmailSent (email user)
        then [(email user, ad_title alert)] else [])"
  by (cases ch)
    (simp_all add: send_email_def send_sms_def send_websocket_def send_push_notification_def
      email_line_def split: option.splits)

lemma emails_sent_run_tasks:
  "emails_sent (run_tasks ns ev user alert chs w) =
     emails_sent w @
       (if truthy (smtp_host ns) \<and> email user \<noteq> []
           \<and> email_line ev user = EmailSent (email user)
        then replicate (count_list chs EMAIL) (email user, ad_title alert) else [])"
  by (induction chs arbitrary: w)
    (simp_all add: emails_sent_channel_task replicate_app_Cons_same)

lemma email_line_other_channels:
  "email_line (ev\<lparr>twilio_raises := t, network := n\<rparr>) user = email_line ev user"
  by (simp add: email_line_def)

text \<open>
  C7, as the code has it. \<open>send_notification\<close> returns no outcome map: it returns
  \<^verbatim>\<open>None\<close>, and what a sender runs into is only printed. A sender that raises does not
  cancel the other sends of the call. For every dispatch: each \<^verbatim>\<open>SMS\<close> entry sends one
  SMS exactly when the Twilio client is there, the user has a phone number and the
  provider does not raise; each \<^verbatim>\<open>WEBSOCKET\<close> entry makes one \<open>send_personal_message\<close>
  of the alert to the user; each \<^verbatim>\<open>PUSH\<close> entry prints its line; each \<^verbatim>\<open>EMAIL\<close>
  entry, when the mail host and the address are set, runs the email sender, which prints
  one line. What the email sender leaves behind is the same whether or not the SMS
  provider or the push connections fail, also when dispatching to email and SMS.
\<close>

theorem send_notification_channels_independent:
  "snd (send_notification ns ev user alert chs w) = PyNone
   \<and> sms_sent (fst (send_notification ns ev user alert chs w)) =
       sms_sent w @
       concat (map (\<lambda>ch. case phone_number user of
                 None \<Rightarrow> []
               | Some phone \<Rightarrow>
                   if ch = SMS \<and> twilio_client ns \<and> phone \<noteq> [] \<and> \<not> twilio_raises ev phone
                   then [(phone, ad_title alert, take 100 (ad_message alert))] else []) chs)
   \<and> websocket_manager (fst (send_notification ns ev user alert chs w)) =
       ((\<lambda>mgr. fst (send_personal_message (network ev) (AlertMessage alert (now_ws ev))
                      (user_uuid user) mgr)) ^^ count_list chs WEBSOCKET)
         (websocket_manager w)
   \<and> filter is_push_log (log (fst (send_notification ns ev user alert chs w))) =
       filter is_push_log (log w) @ replicate (count_list chs PUSH) (PushTodo (ad_title alert))
   \<and> length (filter is_email_log (log (fst (send_notification ns ev user alert chs w)))) =
       length (filter is_email_log (log w)) +
       (if truthy (smtp_host ns) \<and> email user \<noteq> [] then count_list chs EMAIL else 0)
   \<and> filter is_email_log
       (log (fst (send_notification ns (ev\<lparr>twilio_raises := t, network := n\<rparr>) user alert chs w))) =
     filter is_email_log (log (fst (send_notification ns ev user alert chs w)))
   \<and> emails_sent
       (fst (send_notification ns (ev\<lparr>twilio_raises := t, network := n\<rparr>) user alert chs w)) =
     emails_sent (fst (send_notification ns ev user alert chs w))
   \<and> filter is_email_log
       (log (fst (send_notification ns (ev\<lparr>twilio_raises := (\<lambda>p. True)\<rparr>) user alert
          [EMAIL, SMS] w))) =
     filter is_email_log
       (log (fst (send_notification ns (ev\<lparr>twilio_raises := (\<lambda>p. False)\<rparr>) user alert
          [EMAIL] w)))"
proof -
  have a: "email_line (ev\<lparr>twilio_raises := f\<rparr>) user = email_line ev user" for f
    by (simp add: email_line_def)
  show ?thesis
    unfolding send_notification_def fst_conv snd_conv
      sms_sent_run_tasks websocket_manager_run_tasks push_log_run_tasks
      email_log_run_tasks emails_sent_run_tasks email_line_other_channels a
    by simp
qed

text \<open>
  The claim as the specification words it fails: dispatching to email and SMS with a
  failing SMS provider returns \<^verbatim>\<open>None\<close>, with no outcome recorded for either channel.
\<close>

theorem send_notification_outcome_counterexample:
  "\<not> records_outcome
       (snd (send_notification service env_sms_down user1 heat_alert [EMAIL, SMS] empty_world))
       ''email''
   \<and> \<not> records_outcome
       (snd (send_notification service env_sms_down user1 heat_alert [EMAIL, SMS] empty_world))
       ''sms''
   \<and> snd (send_notification service env_sms_down user1 heat_alert [EMAIL, SMS] empty_world) =
     PyNone"
  by (simp add: records_outcome_def send_notification_def)

subsection \<open>Marking an alert as read\<close>

text \<open>
  In the module as written the method changes no row, whatever the identifier. Were
  \<^verbatim>\<open>select\<close> bound, it would set \<open>is_read\<close> on the row with that identifier and on no
  other, leave the store alone for an unknown identifier, and return \<^verbatim>\<open>None\<close> either way.
\<close>

lemma mark_alert_as_read_changes_nothing:
  "db_alerts (fst (mark_alert_as_read module_globals ev aid user_id w)) = db_alerts w
   \<and> snd (mark_alert_as_read module_globals ev aid user_id w) = PyNone"
  by (simp add: mark_alert_as_read_def module_globals_def)

lemma mark_alert_as_read_with_select:
  assumes "''select'' \<in> set globals" and "\<not> commit_raises ev"
  shows "db_alerts (fst (mark_alert_as_read globals ev aid user_id w)) =
           map (\<lambda>a. if alert_id a = aid then a\<lparr>is_read := True\<rparr> else a) (db_alerts w)
         \<and> snd (mark_alert_as_read globals ev aid user_id w) = PyNone"
proof (cases "find (\<lambda>a. alert_id a = aid) (db_alerts w)")
  case None
  then have "\<forall>a \<in> set (db_alerts w). alert_id a \<noteq> aid"
    by (simp add: find_None_iff)
  then have "map (\<lambda>a. if alert_id a = aid then a\<lparr>is_read := True\<rparr> else a) (db_alerts w) =
      db_alerts w"
    by (simp add: map_idI)
  with None assms show ?thesis by (simp add: mark_alert_as_read_def)
next
  case (Some a)
  with assms show ?thesis by (simp add: mark_alert_as_read_def)
qed

text \<open>
  C4, at a store that holds the unread alert a1: \<open>mark_alert_as_read\<close> runs into the
  unbound name, the error is printed, and the alert is still unread.
\<close>

theorem mark_alert_as_read_leaves_unread:
  "mark_alert_as_read module_globals env_ok ''a1'' ''u1''
       (empty_world\<lparr>db_alerts := [unread_alert]\<rparr>) =
     (empty_world\<lparr>db_alerts := [unread_alert], log := [MarkReadError NameError]\<rparr>, PyNone)
   \<and> map is_read (db_alerts (fst
       (mark_alert_as_read module_globals env_ok ''a1'' ''u1''
          (empty_world\<lparr>db_alerts := [unread_alert]\<rparr>)))) =
     [False]"
  by (simp add: mark_alert_as_read_def module_globals_def empty_world_def unread_alert_def)

end
